theory Spec2Isabelle
  imports Complex_Main
begin

section \<open>Python strings\<close>

text \<open>
  A Python \<open>str\<close> is a sequence of code points. The model uses \<^typ>\<open>string\<close>, whose
  characters are the code points U+0000 to U+00FF; on this range the tables below are
  those of CPython (\<open>str.isspace\<close>, the \<open>\s\<close> and \<open>\d\<close> classes of \<open>re\<close> for \<open>str\<close>
  patterns, \<open>str.lower\<close>). An absent value (\<open>None\<close>, or the \<open>NaN\<close> that pandas puts in an
  empty cell) is \<^term>\<open>None :: string option\<close>; \<open>pd.isna\<close> is true exactly of it.
\<close>

definition isspace :: "char \<Rightarrow> bool" where
  "isspace c = (let n = (of_char c :: nat) in
     (9 \<le> n \<and> n \<le> 13) \<or> (28 \<le> n \<and> n \<le> 32) \<or> n = 133 \<or> n = 160)"

definition isdigit :: "char \<Rightarrow> bool" where
  "isdigit c = (let n = (of_char c :: nat) in 48 \<le> n \<and> n \<le> 57)"

definition lower_char :: "char \<Rightarrow> char" where
  "lower_char c = (let n = (of_char c :: nat) in
     if (65 \<le> n \<and> n \<le> 90) \<or> (192 \<le> n \<and> n \<le> 222 \<and> n \<noteq> 215)
     then char_of (n + 32) else c)"

definition lower :: "string \<Rightarrow> string" where
  "lower s = map lower_char s"

definition lstrip :: "string \<Rightarrow> string" where
  "lstrip s = dropWhile isspace s"

definition rstrip :: "string \<Rightarrow> string" where
  "rstrip s = rev (dropWhile isspace (rev s))"

definition strip :: "string \<Rightarrow> string" where
  "strip s = lstrip (rstrip s)"

definition isna :: "string option \<Rightarrow> bool" where
  "isna v = (v = None)"

text \<open>Truthiness of a value that is a string or \<open>None\<close>: \<open>not v\<close> holds of \<open>None\<close> and \<open>""\<close>.\<close>

definition falsy :: "string option \<Rightarrow> bool" where
  "falsy v = (case v of None \<Rightarrow> True | Some s \<Rightarrow> s = [])"

text \<open>\<open>str(v)\<close> after the guard has excluded \<open>None\<close>.\<close>

definition str_of :: "string option \<Rightarrow> string" where
  "str_of v = (case v of None \<Rightarrow> ''None'' | Some s \<Rightarrow> s)"

definition dict_get :: "('k \<rightharpoonup> 'v) \<Rightarrow> 'k \<Rightarrow> 'v \<Rightarrow> 'v" where
  "dict_get m k d = (case m k of None \<Rightarrow> d | Some v \<Rightarrow> v)"

section \<open>\<open>clean_category\<close>\<close>

definition category_mapping :: "(string \<times> string) list" where
  "category_mapping =
     [(''food'', ''Food''), (''travel'', ''Travel''), (''health'', ''Health''),
      (''office'', ''Office''), (''other'', ''Other'')]"

definition clean_category :: "string option \<Rightarrow> string" where
  "clean_category category_str =
     (if isna category_str \<or> falsy category_str then ''Other''
      else let category_str = lower (strip (str_of category_str))
           in dict_get (map_of category_mapping) category_str ''Other'')"

section \<open>Exceptions\<close>

text \<open>
  An exception is a value: its class and, as argument, the text that \<open>str(e)\<close> is built
  from. \<open>LibraryError\<close> stands for the exceptions raised inside the codec and pandas
  (\<open>UnicodeDecodeError\<close>, \<open>EmptyDataError\<close>, \<open>ParserError\<close>), carrying their message.
  A function that can raise returns \<open>exn + 'a\<close>, with \<open>Inl\<close> the raised exception.
\<close>

datatype exn = ValueError string | KeyError string | LibraryError string

fun exn_str :: "exn \<Rightarrow> string" where
  "exn_str (ValueError m) = m"
| "exn_str (KeyError k) = [CHR 0x27] @ k @ [CHR 0x27]"
| "exn_str (LibraryError m) = m"

section \<open>\<open>datetime.strptime\<close> and \<open>strftime\<close>\<close>

text \<open>
  \<open>_strptime\<close> turns the format into a regular expression, one named group per
  directive, matches it at the start of the data (\<open>re.match\<close>: the first path of the
  backtracking search, alternatives in the order written), refuses data left over, and
  builds the date, which validates year, month and day. The three directives the
  program uses are modelled:
  \<^item> \<open>%d\<close> is \<open>3[0-1]|[1-2]\d|0[1-9]|[1-9]| [1-9]\<close>,
  \<^item> \<open>%m\<close> is \<open>1[0-2]|0[1-9]|[1-9]\<close>,
  \<^item> \<open>%Y\<close> is \<open>\d\d\d\d\<close>;
  every other character of the program's formats is a literal. The \<open>IGNORECASE\<close> flag
  has no effect on these patterns, which contain no letters.
\<close>

datatype atom = Digit | Range char char | Ch char

fun atom_ok :: "atom \<Rightarrow> char \<Rightarrow> bool" where
  "atom_ok Digit c = isdigit c"
| "atom_ok (Range a b) c = ((of_char a :: nat) \<le> of_char c \<and> (of_char c :: nat) \<le> of_char b)"
| "atom_ok (Ch a) c = (c = a)"

datatype directive = Dir_Y | Dir_m | Dir_d

datatype re_item = Group directive "atom list list" | Literal char

definition re_d :: "atom list list" where
  "re_d = [[Ch CHR ''3'', Range CHR ''0'' CHR ''1''], [Range CHR ''1'' CHR ''2'', Digit],
           [Ch CHR ''0'', Range CHR ''1'' CHR ''9''], [Range CHR ''1'' CHR ''9''],
           [Ch CHR '' '', Range CHR ''1'' CHR ''9'']]"

definition re_m :: "atom list list" where
  "re_m = [[Ch CHR ''1'', Range CHR ''0'' CHR ''2''], [Ch CHR ''0'', Range CHR ''1'' CHR ''9''],
           [Range CHR ''1'' CHR ''9'']]"

definition re_Y :: "atom list list" where
  "re_Y = [[Digit, Digit, Digit, Digit]]"

definition directive_re :: "char \<Rightarrow> re_item option" where
  "directive_re c =
     (if c = CHR ''Y'' then Some (Group Dir_Y re_Y)
      else if c = CHR ''m'' then Some (Group Dir_m re_m)
      else if c = CHR ''d'' then Some (Group Dir_d re_d)
      else None)"

text \<open>\<open>TimeRE.pattern\<close>: a directive is \<open>%\<close> and the character after it.\<close>

fun pattern :: "string \<Rightarrow> exn + re_item list" where
  "pattern [] = Inr []"
| "pattern [c] =
     (if c = CHR ''%'' then Inl (ValueError ''stray % in format'') else Inr [Literal c])"
| "pattern (c # x # rest) =
     (if c = CHR ''%'' then
        (case directive_re x of
           None \<Rightarrow> Inl (ValueError ([CHR 0x27] @ [x] @ [CHR 0x27] @ '' is a bad directive in format''))
         | Some g \<Rightarrow> (case pattern rest of Inl e \<Rightarrow> Inl e | Inr r \<Rightarrow> Inr (g # r)))
      else (case pattern (x # rest) of Inl e \<Rightarrow> Inl e | Inr r \<Rightarrow> Inr (Literal c # r)))"

fun match_atoms :: "atom list \<Rightarrow> string \<Rightarrow> (string \<times> string) option" where
  "match_atoms [] s = Some ([], s)"
| "match_atoms (a # as) [] = None"
| "match_atoms (a # as) (c # cs) =
     (if atom_ok a c
      then (case match_atoms as cs of None \<Rightarrow> None | Some (m, r) \<Rightarrow> Some (c # m, r))
      else None)"

text \<open>
  The backtracking match: an alternative that matches is kept only when the rest of the
  pattern matches after it; otherwise the next alternative is tried. The result is the
  text of each group and the data left over.
\<close>

fun item_weight :: "re_item \<Rightarrow> nat" where
  "item_weight (Group d alts) = Suc (length alts)"
| "item_weight (Literal c) = 1"

function re_match :: "re_item list \<Rightarrow> string \<Rightarrow> ((directive \<times> string) list \<times> string) option" where
  "re_match [] s = Some ([], s)"
| "re_match (Literal c # r) s =
     (case s of [] \<Rightarrow> None | x # xs \<Rightarrow> if x = c then re_match r xs else None)"
| "re_match (Group d [] # r) s = None"
| "re_match (Group d (a # as) # r) s =
     (case match_atoms a s of
        None \<Rightarrow> re_match (Group d as # r) s
      | Some (m, rest) \<Rightarrow>
          (case re_match r rest of
             Some (g, fin) \<Rightarrow> Some ((d, m) # g, fin)
           | None \<Rightarrow> re_match (Group d as # r) s))"
  by pat_completeness auto
termination
  by (relation "measure (\<lambda>(r, s). sum_list (map item_weight r))") auto

text \<open>\<open>int(text)\<close> of a group: optional surrounding whitespace, then decimal digits.\<close>

definition digit_val :: "char \<Rightarrow> int" where
  "digit_val c = of_char c - 48"

definition int_of_digits :: "string \<Rightarrow> int" where
  "int_of_digits s = foldl (\<lambda>n c. 10 * n + digit_val c) 0 s"

definition py_int :: "string \<Rightarrow> int" where
  "py_int s = int_of_digits (strip s)"

record date =
  year :: int
  month :: int
  day :: int

definition is_leap :: "int \<Rightarrow> bool" where
  "is_leap y = (y mod 4 = 0 \<and> (y mod 100 \<noteq> 0 \<or> y mod 400 = 0))"

definition days_in_month :: "int \<Rightarrow> int \<Rightarrow> int" where
  "days_in_month y m =
     (if m = 2 then (if is_leap y then 29 else 28)
      else if m = 4 \<or> m = 6 \<or> m = 9 \<or> m = 11 then 30 else 31)"

text \<open>The checks of the \<open>datetime.date\<close> constructor, in its order.\<close>

definition datetime_date :: "int \<Rightarrow> int \<Rightarrow> int \<Rightarrow> exn + date" where
  "datetime_date y m d =
     (if \<not> (1 \<le> y \<and> y \<le> 9999) then Inl (ValueError ''year is out of range'')
      else if \<not> (1 \<le> m \<and> m \<le> 12) then Inl (ValueError ''month must be in 1..12'')
      else if \<not> (1 \<le> d \<and> d \<le> days_in_month y m)
        then Inl (ValueError ''day is out of range for month'')
      else Inr \<lparr>year = y, month = m, day = d\<rparr>)"

text \<open>
  A field whose directive the format lacks keeps its default (year 1900, month 1,
  day 1); each of the program's formats names all three.
\<close>

definition found_int :: "(directive \<times> string) list \<Rightarrow> directive \<Rightarrow> int \<Rightarrow> int" where
  "found_int found d dflt = (case map_of found d of None \<Rightarrow> dflt | Some t \<Rightarrow> py_int t)"

definition strptime :: "string \<Rightarrow> string \<Rightarrow> exn + date" where
  "strptime data_string format =
     (case pattern format of
        Inl e \<Rightarrow> Inl e
      | Inr format_regex \<Rightarrow>
          (case re_match format_regex data_string of
             None \<Rightarrow> Inl (ValueError ''time data does not match format'')
           | Some (found, rest) \<Rightarrow>
               if rest \<noteq> [] then Inl (ValueError (''unconverted data remains: '' @ rest))
               else datetime_date (found_int found Dir_Y 1900) (found_int found Dir_m 1)
                      (found_int found Dir_d 1)))"

definition digit_char :: "nat \<Rightarrow> char" where
  "digit_char n = char_of (48 + n)"

fun show_nat :: "nat \<Rightarrow> string" where
  "show_nat n = (if n < 10 then [digit_char n] else show_nat (n div 10) @ [digit_char (n mod 10)])"

definition zfill :: "nat \<Rightarrow> string \<Rightarrow> string" where
  "zfill w s = replicate (w - length s) CHR ''0'' @ s"

text \<open>
  \<open>strftime\<close> for the directives \<open>%Y\<close>, \<open>%m\<close>, \<open>%d\<close>. CPython hands the format to the
  \<open>strftime\<close> of the C library: month and day are zero-padded to two digits, and the
  year is printed as a decimal number without padding (the GNU C library; so with
  CPython up to 3.12 on Linux a year below 1000 has fewer than four digits).
\<close>

fun strftime :: "date \<Rightarrow> string \<Rightarrow> string" where
  "strftime dt [] = []"
| "strftime dt [c] = [c]"
| "strftime dt (c # x # rest) =
     (if c = CHR ''%'' then
        (if x = CHR ''Y'' then show_nat (nat (year dt))
         else if x = CHR ''m'' then zfill 2 (show_nat (nat (month dt)))
         else if x = CHR ''d'' then zfill 2 (show_nat (nat (day dt)))
         else [c, x]) @ strftime dt rest
      else c # strftime dt (x # rest))"

section \<open>\<open>clean_date\<close>\<close>

definition formats :: "string list" where
  "formats = [''%Y-%m-%d'', ''%d/%m/%Y'', ''%m/%d/%Y'', ''%d-%m-%Y'', ''%m-%d-%Y'', ''%Y/%m/%d'']"

text \<open>
  The loop over the formats: the first format that parses returns; a \<open>ValueError\<close> goes
  on to the next format, any other exception leaves the function; when the list is
  used up the string itself is returned.
\<close>

fun try_formats :: "string \<Rightarrow> string list \<Rightarrow> exn + string" where
  "try_formats date_str [] = Inr date_str"
| "try_formats date_str (fmt # fmts) =
     (case strptime date_str fmt of
        Inr parsed_date \<Rightarrow> Inr (strftime parsed_date ''%Y-%m-%d'')
      | Inl (ValueError _) \<Rightarrow> try_formats date_str fmts
      | Inl e \<Rightarrow> Inl e)"

definition clean_date :: "string option \<Rightarrow> exn + string option" where
  "clean_date date_str =
     (if isna date_str \<or> falsy date_str then Inr None
      else let date_str = strip (str_of date_str)
           in (case try_formats date_str formats of Inl e \<Rightarrow> Inl e | Inr r \<Rightarrow> Inr (Some r)))"

section \<open>\<open>float\<close>\<close>

text \<open>
  A Python \<open>float\<close> is an IEEE 754 binary64 value. A finite one is represented by the
  rational it denotes, with the negative zero apart; \<^term>\<open>Finite 0\<close> is \<open>0.0\<close>.
\<close>

datatype pyfloat = Finite rat | NegZero | PosInf | NegInf | NaN

function bitlen :: "int \<Rightarrow> nat" where
  "bitlen n = (if n \<le> 0 then 0 else Suc (bitlen (n div 2)))"
  by auto
termination
  by (relation "measure nat") auto

definition pow2 :: "int \<Rightarrow> rat" where
  "pow2 e = (if 0 \<le> e then 2 ^ nat e else 1 / 2 ^ nat (- e))"

text \<open>The integer part of the binary logarithm of a positive rational.\<close>

definition floor_log2 :: "rat \<Rightarrow> int" where
  "floor_log2 q =
     (let (n, d) = quotient_of q;
          k = int (bitlen n) - int (bitlen d)
      in if pow2 k \<le> q then k else k - 1)"

definition round_half_even :: "rat \<Rightarrow> int" where
  "round_half_even x =
     (let f = \<lfloor>x\<rfloor>; r = x - of_int f
      in if r < 1 / 2 then f else if 1 / 2 < r then f + 1 else if even f then f else f + 1)"

text \<open>
  Rounding a non-negative rational to the nearest binary64 value, ties to even: 53
  significant bits, the least exponent \<open>-1074\<close> (subnormal numbers), and \<open>None\<close> when
  the rounded value reaches \<open>2 ^ 1024\<close> (overflow).
\<close>

definition round64 :: "rat \<Rightarrow> rat option" where
  "round64 q =
     (if q = 0 then Some 0
      else let e = max (floor_log2 q - 52) (- 1074);
               r = of_int (round_half_even (q / pow2 e)) * pow2 e
           in if pow2 1024 \<le> r then None else Some r)"

definition float_of :: "bool \<Rightarrow> rat \<Rightarrow> pyfloat" where
  "float_of neg q =
     (case round64 q of
        None \<Rightarrow> (if neg then NegInf else PosInf)
      | Some r \<Rightarrow> if r = 0 then (if neg then NegZero else Finite 0)
                  else Finite (if neg then - r else r))"

text \<open>The float that a decimal literal such as \<open>1234.56\<close> denotes.\<close>

definition float_of_rat :: "rat \<Rightarrow> pyfloat" where
  "float_of_rat q = float_of (q < 0) \<bar>q\<bar>"

text \<open>
  \<open>float(s)\<close> for a string: surrounding whitespace is dropped; an underscore is
  accepted between two digits only and ignored; then an optional sign and either a
  decimal number with an optional exponent, or \<open>inf\<close>, \<open>infinity\<close>, \<open>nan\<close> in any
  letter case. Anything else raises \<open>ValueError\<close>. The whitespace dropped here is
  that of C (tab to carriage return, and the space) and the whitespace beyond ASCII,
  which the conversion turns into spaces first; the separators U+001C to U+001F, which
  \<open>str.isspace\<close> accepts, are kept and make the conversion fail.
\<close>

definition float_space :: "char \<Rightarrow> bool" where
  "float_space c = (let n = (of_char c :: nat) in
     (9 \<le> n \<and> n \<le> 13) \<or> n = 32 \<or> n = 133 \<or> n = 160)"

definition float_strip :: "string \<Rightarrow> string" where
  "float_strip s = dropWhile float_space (rev (dropWhile float_space (rev s)))"

fun strip_underscores :: "char \<Rightarrow> string \<Rightarrow> string option" where
  "strip_underscores prev [] = (if prev = CHR ''_'' then None else Some [])"
| "strip_underscores prev (p # ps) =
     (if p = CHR ''_'' then (if isdigit prev then strip_underscores p ps else None)
      else if prev = CHR ''_'' \<and> \<not> isdigit p then None
      else (case strip_underscores p ps of None \<Rightarrow> None | Some r \<Rightarrow> Some (p # r)))"

definition split_sign :: "string \<Rightarrow> bool \<times> string" where
  "split_sign s =
     (case s of
        [] \<Rightarrow> (False, [])
      | c # r \<Rightarrow> if c = CHR ''-'' then (True, r) else if c = CHR ''+'' then (False, r)
                 else (False, s))"

text \<open>The exponent part: nothing, or \<open>e\<close>, an optional sign and at least one digit.\<close>

definition parse_exponent :: "string \<Rightarrow> int option" where
  "parse_exponent s =
     (case s of
        [] \<Rightarrow> Some 0
      | c # r \<Rightarrow>
          if c = CHR ''e'' \<or> c = CHR ''E'' then
            (let (neg, ds) = split_sign r
             in if ds \<noteq> [] \<and> list_all isdigit ds
                then Some (if neg then - int_of_digits ds else int_of_digits ds)
                else None)
          else None)"

definition pow10 :: "int \<Rightarrow> rat" where
  "pow10 e = (if 0 \<le> e then 10 ^ nat e else 1 / 10 ^ nat (- e))"

text \<open>An unsigned decimal number: digits, an optional point, digits, at least one digit.\<close>

definition parse_decimal :: "string \<Rightarrow> rat option" where
  "parse_decimal s =
     (let ip = takeWhile isdigit s; r1 = dropWhile isdigit s;
          (fp, r2) = (case r1 of
                        [] \<Rightarrow> ([], r1)
                      | c # r \<Rightarrow> if c = CHR ''.'' then (takeWhile isdigit r, dropWhile isdigit r)
                                 else ([], r1))
      in if ip @ fp = [] then None
         else (case parse_exponent r2 of
                 None \<Rightarrow> None
               | Some e \<Rightarrow> Some (of_int (int_of_digits (ip @ fp)) * pow10 (e - int (length fp)))))"

definition py_float :: "string \<Rightarrow> exn + pyfloat" where
  "py_float s =
     (let err = Inl (ValueError (''could not convert string to float: '' @ [CHR 0x27] @ s @ [CHR 0x27]))
      in case strip_underscores (CHR 0x00) (float_strip s) of
           None \<Rightarrow> err
         | Some u \<Rightarrow>
             (let (neg, body) = split_sign u
              in case parse_decimal body of
                   Some q \<Rightarrow> Inr (float_of neg q)
                 | None \<Rightarrow>
                     if lower body = ''inf'' \<or> lower body = ''infinity''
                       then Inr (if neg then NegInf else PosInf)
                     else if lower body = ''nan'' then Inr NaN
                     else err))"

section \<open>\<open>clean_amount\<close>\<close>

text \<open>\<open>re.sub(r'\s+', '', s)\<close> deletes every whitespace character.\<close>

definition remove_whitespace :: "string \<Rightarrow> string" where
  "remove_whitespace s = filter (\<lambda>c. \<not> isspace c) s"

text \<open>\<open>s.replace(old, new)\<close> for a one-character \<open>old\<close>.\<close>

definition replace :: "char \<Rightarrow> string \<Rightarrow> string \<Rightarrow> string" where
  "replace old new s = concat (map (\<lambda>c. if c = old then new else [c]) s)"

definition clean_amount :: "string option \<Rightarrow> exn + pyfloat" where
  "clean_amount amount_str =
     (if isna amount_str then Inr (Finite 0)
      else let amount_str = strip (str_of amount_str);
               amount_str = remove_whitespace amount_str;
               amount_str =
                 (if CHR '','' \<in> set amount_str \<and> CHR ''.'' \<notin> set amount_str
                    then replace CHR '','' ''.'' amount_str
                  else if CHR '','' \<in> set amount_str \<and> CHR ''.'' \<in> set amount_str
                    then replace CHR '','' [] amount_str
                  else amount_str)
           in (case py_float amount_str of
                 Inr x \<Rightarrow> Inr x
               | Inl (ValueError _) \<Rightarrow> Inr (Finite 0)
               | Inl e \<Rightarrow> Inl e))"

text \<open>
  The preparation of the amount text in the words of the specification: every
  whitespace character is removed; with a comma and no period each comma becomes a
  period; with both, the commas are removed; otherwise the text is unchanged.
\<close>

definition spec_amount_text :: "string \<Rightarrow> string" where
  "spec_amount_text s =
     (let t = filter (\<lambda>c. \<not> isspace c) s
      in if CHR '','' \<in> set t \<and> CHR ''.'' \<notin> set t
           then map (\<lambda>c. if c = CHR '','' then CHR ''.'' else c) t
         else if CHR '','' \<in> set t \<and> CHR ''.'' \<in> set t
           then filter (\<lambda>c. c \<noteq> CHR '','') t
         else t)"

section \<open>\<open>clean_name\<close>\<close>

text \<open>\<open>s.split()\<close>: the maximal runs of characters that are not whitespace.\<close>

fun split_acc :: "string \<Rightarrow> string \<Rightarrow> string list" where
  "split_acc w [] = (if w = [] then [] else [rev w])"
| "split_acc w (c # cs) =
     (if isspace c then (if w = [] then split_acc [] cs else rev w # split_acc [] cs)
      else split_acc (c # w) cs)"

definition split :: "string \<Rightarrow> string list" where
  "split s = split_acc [] s"

text \<open>
  \<open>s.capitalize()\<close>: the first character in title case, the others in lower case. The
  title case of U+00DF is the two characters \<open>Ss\<close>; that of U+00B5 and U+00FF lies
  beyond U+00FF, and the model leaves these two characters as they are.
\<close>

definition title_char :: "char \<Rightarrow> string" where
  "title_char c = (let n = (of_char c :: nat) in
     if (97 \<le> n \<and> n \<le> 122) \<or> (224 \<le> n \<and> n \<le> 254 \<and> n \<noteq> 247) then [char_of (n - 32)]
     else if n = 223 then ''Ss'' else [c])"

definition capitalize :: "string \<Rightarrow> string" where
  "capitalize s = (case s of [] \<Rightarrow> [] | c # r \<Rightarrow> title_char c @ lower r)"

fun join :: "string \<Rightarrow> string list \<Rightarrow> string" where
  "join sep [] = []"
| "join sep [x] = x"
| "join sep (x # y # r) = x @ sep @ join sep (y # r)"

definition clean_name :: "string option \<Rightarrow> string" where
  "clean_name name_str =
     (if isna name_str \<or> falsy name_str then []
      else let name_str = strip (str_of name_str);
               name_str = join '' '' (map capitalize (split name_str))
           in name_str)"

section \<open>The \<open>/analyze\<close> endpoint\<close>

text \<open>
  The upload is a file name and the bytes of the file. The operations of the codec,
  of pandas and of float formatting that the endpoint calls are parameters of the
  model: decoding the bytes as UTF-8, \<open>pd.read_csv\<close> with its separator, the sum of a
  column of floats and the format \<open>.2f\<close>. A data frame is the list of its columns, each
  a name and the cells below it; a cell is a string, or absent.
\<close>

type_synonym bytes = "char list"

type_synonym frame = "(string \<times> string option list) list"

record upload =
  filename :: string
  content :: bytes

record library =
  decode_utf8 :: "bytes \<Rightarrow> exn + string"
  read_csv :: "string \<Rightarrow> char \<Rightarrow> exn + frame"
  series_sum :: "pyfloat list \<Rightarrow> pyfloat"
  format_2f :: "pyfloat \<Rightarrow> string"

text \<open>What the handler does to the upload and asks of the library, in order.\<close>

datatype call = FileRead | Utf8Decode | ReadCsv

datatype response = Ok "(string \<times> string) list" | HTTPException nat string

fun status_code :: "response \<Rightarrow> nat" where
  "status_code (Ok body) = 200"
| "status_code (HTTPException code detail) = code"

definition endswith :: "string \<Rightarrow> string \<Rightarrow> bool" where
  "endswith s suffix = (length suffix \<le> length s \<and> drop (length s - length suffix) s = suffix)"

text \<open>\<open>df[name]\<close> raises \<open>KeyError\<close> when the frame has no such column.\<close>

definition getitem :: "frame \<Rightarrow> string \<Rightarrow> exn + string option list" where
  "getitem df name = (case map_of df name of None \<Rightarrow> Inl (KeyError name) | Some col \<Rightarrow> Inr col)"

text \<open>\<open>Series.apply\<close> with a function that may raise: the first exception ends it.\<close>

fun apply_raising :: "('a \<Rightarrow> exn + 'b) \<Rightarrow> 'a list \<Rightarrow> exn + 'b list" where
  "apply_raising f [] = Inr []"
| "apply_raising f (x # xs) =
     (case f x of
        Inl e \<Rightarrow> Inl e
      | Inr y \<Rightarrow> (case apply_raising f xs of Inl e \<Rightarrow> Inl e | Inr ys \<Rightarrow> Inr (y # ys)))"

record cleaned =
  Name :: "string list"
  Date :: "string option list"
  Amount :: "pyfloat list"
  Category :: "string list"

text \<open>The four assignments that clean the columns, each reading its column first.\<close>

definition clean_frame :: "frame \<Rightarrow> exn + cleaned" where
  "clean_frame df =
     (case getitem df ''Name'' of
        Inl e \<Rightarrow> Inl e
      | Inr name_col \<Rightarrow>
     (case getitem df ''Date'' of
        Inl e \<Rightarrow> Inl e
      | Inr date_col \<Rightarrow>
     (case apply_raising clean_date date_col of
        Inl e \<Rightarrow> Inl e
      | Inr dates \<Rightarrow>
     (case getitem df ''Amount'' of
        Inl e \<Rightarrow> Inl e
      | Inr amount_col \<Rightarrow>
     (case apply_raising clean_amount amount_col of
        Inl e \<Rightarrow> Inl e
      | Inr amounts \<Rightarrow>
     (case getitem df ''Category'' of
        Inl e \<Rightarrow> Inl e
      | Inr category_col \<Rightarrow>
          Inr \<lparr>Name = map clean_name name_col, Date = dates, Amount = amounts,
               Category = map clean_category category_col\<rparr>))))))"

text \<open>The amounts of the rows whose category is \<open>Food\<close>.\<close>

definition food_amounts :: "cleaned \<Rightarrow> pyfloat list" where
  "food_amounts df = map snd (filter (\<lambda>(c, a). c = ''Food'') (zip (Category df) (Amount df)))"

definition make_response :: "library \<Rightarrow> cleaned \<Rightarrow> (string \<times> string) list" where
  "make_response lib df =
     (let total_food_spending = series_sum lib (food_amounts df)
      in [(''answer'', ''$'' @ format_2f lib total_food_spending),
          (''email'', ''22f3003091@ds.study.iitm.ac.in''),
          (''exam'', ''tds-2025-05-roe'')])"

text \<open>The body of the \<open>try\<close> block, with the calls it has made when it ends.\<close>

definition process :: "library \<Rightarrow> upload \<Rightarrow> (exn + (string \<times> string) list) \<times> call list" where
  "process lib file =
     (let bytes = content file in
      case decode_utf8 lib bytes of
        Inl e \<Rightarrow> (Inl e, [FileRead, Utf8Decode])
      | Inr text \<Rightarrow>
          (case read_csv lib text CHR '';'' of
             Inl e \<Rightarrow> (Inl e, [FileRead, Utf8Decode, ReadCsv])
           | Inr df \<Rightarrow>
               (case clean_frame df of
                  Inl e \<Rightarrow> (Inl e, [FileRead, Utf8Decode, ReadCsv])
                | Inr cleaned_df \<Rightarrow>
                    (Inr (make_response lib cleaned_df), [FileRead, Utf8Decode, ReadCsv]))))"

definition analyze_expenses :: "library \<Rightarrow> upload \<Rightarrow> response \<times> call list" where
  "analyze_expenses lib file =
     (if \<not> endswith (filename file) ''.csv''
      then (HTTPException 400 ''File must be a CSV'', [])
      else (case process lib file of
              (Inr body, calls) \<Rightarrow> (Ok body, calls)
            | (Inl e, calls) \<Rightarrow>
                (HTTPException 500 (''Error processing file: '' @ exn_str e), calls)))"

section \<open>Properties\<close>

subsection \<open>Strings\<close>

lemma strip_Nil [simp]: "strip [] = []"
  by (simp add: strip_def lstrip_def rstrip_def)

subsection \<open>Categories\<close>

text \<open>
  C4. \<open>clean_category\<close> trims and lowercases its input and looks the result up in the
  mapping food, travel, health, office, other; every other input, the empty and the
  absent one included, gives \<open>Other\<close>; the result always lies in the set of the five
  labels.
\<close>

theorem clean_category_mapping:
  "clean_category x =
     (case x of
        None \<Rightarrow> ''Other''
      | Some s \<Rightarrow>
          (let k = lower (strip s) in
           if k = ''food'' then ''Food''
           else if k = ''travel'' then ''Travel''
           else if k = ''health'' then ''Health''
           else if k = ''office'' then ''Office''
           else if k = ''other'' then ''Other''
           else ''Other''))
   \<and> clean_category x \<in> {''Food'', ''Travel'', ''Health'', ''Office'', ''Other''}"
proof (cases x)
  case None
  then show ?thesis by (simp add: clean_category_def isna_def)
next
  case (Some s)
  show ?thesis
  proof (cases "s = []")
    case True
    with Some show ?thesis by (simp add: clean_category_def isna_def falsy_def lower_def)
  next
    case False
    with Some show ?thesis
      by (simp add: clean_category_def isna_def falsy_def str_of_def dict_get_def
          category_mapping_def Let_def)
  qed
qed

theorem clean_category_mapping_witness:
  "clean_category (Some '' FOOD '') = ''Food'' \<and> clean_category (Some ''groceries'') = ''Other''
   \<and> clean_category (Some '''') = ''Other'' \<and> clean_category None = ''Other''"
proof -
  have a: "lower (strip '' FOOD '') = ''food''" by code_simp
  have b: "lower (strip ''groceries'') = ''groceries''" by code_simp
  have c: "lower [] = []" by (simp add: lower_def)
  show ?thesis
    using clean_category_mapping [of "Some '' FOOD ''"]
      clean_category_mapping [of "Some ''groceries''"]
      clean_category_mapping [of "Some ''''"] clean_category_mapping [of None]
    by (simp add: a b c)
qed

subsection \<open>Amounts\<close>

lemma filter_dropWhile_not: "filter (\<lambda>c. \<not> Q c) (dropWhile Q xs) = filter (\<lambda>c. \<not> Q c) xs"
  by (induction xs) auto

lemma filter_strip: "filter (\<lambda>c. \<not> isspace c) (strip s) = filter (\<lambda>c. \<not> isspace c) s"
proof -
  have "filter (\<lambda>c. \<not> isspace c) (rstrip s) = filter (\<lambda>c. \<not> isspace c) s"
    unfolding rstrip_def by (simp add: filter_dropWhile_not flip: rev_filter)
  then show ?thesis
    by (simp add: strip_def lstrip_def filter_dropWhile_not)
qed

lemma replace_by_char: "replace a [b] s = map (\<lambda>c. if c = a then b else c) s"
  by (induction s) (auto simp: replace_def)

lemma replace_by_nothing: "replace a [] s = filter (\<lambda>c. c \<noteq> a) s"
  by (induction s) (auto simp: replace_def)

text \<open>The text that \<open>clean_amount\<close> hands to \<open>float\<close> is the one the specification describes.\<close>

lemma amount_text_refines:
  "(let amount_str = strip s; amount_str = remove_whitespace amount_str
    in if CHR '','' \<in> set amount_str \<and> CHR ''.'' \<notin> set amount_str
         then replace CHR '','' ''.'' amount_str
       else if CHR '','' \<in> set amount_str \<and> CHR ''.'' \<in> set amount_str
         then replace CHR '','' [] amount_str
       else amount_str) = spec_amount_text s"
proof -
  have eq: "remove_whitespace (strip s) = filter (\<lambda>c. \<not> isspace c) s"
    by (simp add: remove_whitespace_def filter_strip)
  show ?thesis
    by (simp only: Let_def spec_amount_text_def eq replace_by_char replace_by_nothing)
qed

text \<open>\<open>float\<close> raises nothing but \<open>ValueError\<close>, which the handler of \<open>clean_amount\<close> catches.\<close>

lemma py_float_raises: "py_float s = Inl e \<Longrightarrow> \<exists>m. e = ValueError m"
  by (auto simp: py_float_def Let_def split: option.splits prod.splits if_splits)

lemma clean_amount_Some:
  "clean_amount (Some s) =
     (case py_float (spec_amount_text s) of Inr x \<Rightarrow> Inr x | Inl e \<Rightarrow> Inr (Finite 0))"
proof -
  have "clean_amount (Some s) =
     (case py_float (spec_amount_text s) of
        Inr x \<Rightarrow> Inr x | Inl (ValueError _) \<Rightarrow> Inr (Finite 0) | Inl e \<Rightarrow> Inl e)"
    unfolding clean_amount_def isna_def str_of_def
    using amount_text_refines [of s] by (simp add: Let_def)
  then show ?thesis
    by (auto split: sum.splits exn.splits dest: py_float_raises)
qed

lemma clean_amount_total: "\<exists>v. clean_amount x = Inr v"
proof (cases x)
  case None
  then show ?thesis by (simp add: clean_amount_def isna_def)
next
  case (Some s)
  then show ?thesis by (simp add: clean_amount_Some split: sum.splits)
qed

lemmas float_eval =
  py_float_def float_strip_def float_space_def isdigit_def split_sign_def
  parse_decimal_def parse_exponent_def int_of_digits_def digit_val_def pow10_def
  lower_def lower_char_def Let_def

lemma amount_text_thousands: "spec_amount_text ''1,234.56'' = ''1234.56''"
  by (simp add: spec_amount_text_def isspace_def)

lemma amount_text_decimal_comma: "spec_amount_text ''12,50'' = ''12.50''"
  by (simp add: spec_amount_text_def isspace_def)

lemma amount_text_abc: "spec_amount_text ''abc'' = ''abc''"
  by (simp add: spec_amount_text_def isspace_def)

lemma amount_text_empty: "spec_amount_text [] = []"
  by (simp add: spec_amount_text_def)

lemma py_float_thousands:
  "py_float ''1234.56'' = Inr (Finite (2714826150374277 / 2199023255552))"
  by code_simp

lemma py_float_decimal_comma: "py_float ''12.50'' = Inr (Finite (25 / 2))"
  by code_simp

lemma py_float_spaced: "py_float ''1234.5'' = Inr (Finite (2469 / 2))"
  by code_simp

lemma py_float_abc: "isl (py_float ''abc'')"
  by (simp add: float_eval)

lemma py_float_empty: "isl (py_float [])"
  by (simp add: float_eval)

text \<open>
  C3. \<open>clean_amount\<close> removes all whitespace, turns a comma into the decimal point
  when there is no period, removes the commas when there is a period, leaves the text
  unchanged otherwise, and parses the result as a float (\<open>0.0\<close> when that fails). So
  \<open>"12,50"\<close> gives \<open>12.5\<close>, and \<open>"1,234.56"\<close> gives the float \<open>1234.56\<close>, which is
  \<open>2714826150374277 / 2 ^ 41\<close>: a binary64 value (its numerator is below \<open>2 ^ 53\<close>) within
  half a unit in the last place, \<open>1 / 2 ^ 43\<close>, of the decimal \<open>1234.56\<close>.
\<close>

theorem clean_amount_separators:
  "clean_amount (Some s) =
     (case py_float (spec_amount_text s) of Inr x \<Rightarrow> Inr x | Inl e \<Rightarrow> Inr (Finite 0))
   \<and> spec_amount_text ''1,234.56'' = ''1234.56''
   \<and> clean_amount (Some ''1,234.56'') = Inr (Finite (2714826150374277 / 2199023255552))
   \<and> (2199023255552 :: rat) = 2 ^ 41 \<and> (2714826150374277 :: rat) < 2 ^ 53
   \<and> \<bar>2714826150374277 / 2199023255552 - 123456 / 100\<bar> \<le> (1 / 2 ^ 43 :: rat)
   \<and> spec_amount_text ''12,50'' = ''12.50''
   \<and> clean_amount (Some ''12,50'') = Inr (Finite (25 / 2))"
proof -
  have "(2199023255552 :: rat) = 2 ^ 41" "(2714826150374277 :: rat) < 2 ^ 53"
    "\<bar>2714826150374277 / 2199023255552 - 123456 / 100\<bar> \<le> (1 / 2 ^ 43 :: rat)"
    by simp_all
  then show ?thesis
    by (simp only: clean_amount_Some amount_text_thousands amount_text_decimal_comma
        py_float_thousands py_float_decimal_comma sum.case simp_thms)
qed

theorem clean_amount_separators_witness:
  "clean_amount (Some ''1 234,5'') = Inr (Finite (2469 / 2))"
proof -
  have a: "spec_amount_text ''1 234,5'' = ''1234.5''"
    by (simp add: spec_amount_text_def isspace_def)
  show ?thesis
    using clean_amount_separators [of "''1 234,5''"] by (simp add: a py_float_spaced)
qed

text \<open>
  C5. \<open>clean_amount\<close> never raises: it returns a float for every input, \<open>0.0\<close> for an
  absent one and \<open>0.0\<close> whenever the prepared text does not parse as a float, as for
  the empty string and for \<open>"abc"\<close>.
\<close>

theorem clean_amount_never_raises:
  "(\<exists>v. clean_amount x = Inr v)
   \<and> clean_amount None = Inr (Finite 0)
   \<and> (isl (py_float (spec_amount_text s)) \<longrightarrow> clean_amount (Some s) = Inr (Finite 0))
   \<and> clean_amount (Some '''') = Inr (Finite 0)
   \<and> clean_amount (Some ''abc'') = Inr (Finite 0)"
proof -
  have "clean_amount None = Inr (Finite 0)"
    by (simp add: clean_amount_def isna_def)
  moreover have "isl (py_float (spec_amount_text s)) \<longrightarrow> clean_amount (Some s) = Inr (Finite 0)"
    by (simp add: clean_amount_Some split: sum.splits)
  moreover have "clean_amount (Some '''') = Inr (Finite 0)"
    using py_float_empty
    by (cases "py_float []") (simp_all add: clean_amount_Some amount_text_empty)
  moreover have "clean_amount (Some ''abc'') = Inr (Finite 0)"
    using py_float_abc
    by (cases "py_float ''abc''") (simp_all add: clean_amount_Some amount_text_abc)
  ultimately show ?thesis
    using clean_amount_total [of x] by simp
qed

theorem clean_amount_never_raises_witness:
  "isl (py_float (spec_amount_text ''12,5o'')) \<and> clean_amount (Some ''12,5o'') = Inr (Finite 0)"
proof -
  have a: "spec_amount_text ''12,5o'' = ''12.5o''"
    by (simp add: spec_amount_text_def isspace_def)
  have b: "isl (py_float ''12.5o'')"
    by (simp add: float_eval)
  show ?thesis
    using clean_amount_never_raises [of None "''12,5o''"] by (simp add: a b)
qed

subsection \<open>Dates: parsing never raises anything but \<open>ValueError\<close>\<close>

declare show_nat.simps [simp del]

lemma pattern_raises: "pattern f = Inl e \<Longrightarrow> \<exists>m. e = ValueError m"
  by (induction f arbitrary: e rule: pattern.induct)
    (auto split: if_splits option.splits sum.splits)

lemma datetime_date_raises: "datetime_date y m d = Inl e \<Longrightarrow> \<exists>msg. e = ValueError msg"
  by (auto simp: datetime_date_def split: if_splits)

lemma strptime_raises: "strptime s f = Inl e \<Longrightarrow> \<exists>m. e = ValueError m"
  by (auto simp: strptime_def split: sum.splits option.splits prod.splits if_splits
      dest: pattern_raises datetime_date_raises)

lemma try_formats_total: "\<exists>r. try_formats s fs = Inr r"
proof (induction fs)
  case Nil
  show ?case by simp
next
  case (Cons f fs)
  show ?case
  proof (cases "strptime s f")
    case (Inl e)
    with strptime_raises obtain m where "e = ValueError m" by blast
    with Inl Cons show ?thesis by simp
  next
    case (Inr d)
    then show ?thesis by simp
  qed
qed

lemma try_formats_none: "\<forall>f \<in> set fs. isl (strptime s f) \<Longrightarrow> try_formats s fs = Inr s"
proof (induction fs)
  case Nil
  show ?case by simp
next
  case (Cons f fs)
  then obtain e where e: "strptime s f = Inl e" by (cases "strptime s f") auto
  with strptime_raises obtain m where "e = ValueError m" by blast
  with e Cons show ?case by simp
qed

lemma clean_date_total: "\<exists>r. clean_date x = Inr r"
proof (cases "isna x \<or> falsy x")
  case True
  then show ?thesis by (simp add: clean_date_def)
next
  case False
  obtain r where "try_formats (strip (str_of x)) formats = Inr r"
    using try_formats_total by blast
  with False show ?thesis by (simp add: clean_date_def Let_def)
qed

lemma clean_date_Some:
  "s \<noteq> [] \<Longrightarrow> clean_date (Some s) =
     (case try_formats (strip s) formats of Inl e \<Rightarrow> Inl e | Inr r \<Rightarrow> Inr (Some r))"
  by (simp add: clean_date_def isna_def falsy_def str_of_def)

subsection \<open>Trimming\<close>

lemma strip_all_space: "\<forall>c \<in> set s. isspace c \<Longrightarrow> strip s = []"
proof -
  assume "\<forall>c \<in> set s. isspace c"
  then have "dropWhile isspace (rev s) = []" by simp
  then have "rstrip s = []" by (simp add: rstrip_def)
  then show ?thesis by (simp add: strip_def lstrip_def)
qed

lemma strip_hd: "strip s \<noteq> [] \<Longrightarrow> \<not> isspace (hd (strip s))"
  unfolding strip_def lstrip_def by (metis hd_dropWhile)

lemma strip_last: "strip s \<noteq> [] \<Longrightarrow> \<not> isspace (last (strip s))"
proof -
  assume ne: "strip s \<noteq> []"
  let ?r = "rstrip s"
  have r: "?r \<noteq> []" using ne by (auto simp: strip_def lstrip_def)
  have "rev ?r = dropWhile isspace (rev s)" by (simp add: rstrip_def)
  then have "\<not> isspace (hd (rev ?r))" using r by (metis hd_dropWhile rev_is_Nil_conv)
  then have lr: "\<not> isspace (last ?r)" using r by (simp add: hd_rev)
  have "strip s = dropWhile isspace ?r" by (simp add: strip_def lstrip_def)
  then have "last (strip s) = last ?r"
    using ne by (metis last_appendR takeWhile_dropWhile_id)
  with lr show ?thesis by simp
qed

lemma strip_fixed: "t \<noteq> [] \<Longrightarrow> \<not> isspace (hd t) \<Longrightarrow> \<not> isspace (last t) \<Longrightarrow> strip t = t"
proof -
  assume t: "t \<noteq> []" and h: "\<not> isspace (hd t)" and l: "\<not> isspace (last t)"
  have "dropWhile isspace (rev t) = rev t"
    using t l by (cases "rev t") (auto simp: last_rev [symmetric] hd_rev)
  then have "rstrip t = t" by (simp add: rstrip_def)
  moreover have "dropWhile isspace t = t" using t h by (cases t) auto
  ultimately show ?thesis by (simp add: strip_def lstrip_def)
qed

lemma strip_idem: "strip (strip s) = strip s"
proof (cases "strip s = []")
  case True
  then show ?thesis by simp
next
  case False
  then show ?thesis by (intro strip_fixed strip_hd strip_last)
qed

subsection \<open>Dates that do not parse\<close>

lemmas re_eval =
  strptime_def directive_re_def re_Y_def re_m_def re_d_def isdigit_def

lemma strptime_empty: "f \<in> set formats \<Longrightarrow> isl (strptime [] f)"
  by (auto simp: formats_def re_eval)

lemma strptime_not_a_date: "f \<in> set formats \<Longrightarrow> isl (strptime ''not-a-date'' f)"
  by (auto simp: formats_def re_eval)

lemma strip_not_a_date: "strip ''not-a-date'' = ''not-a-date''"
  by (simp add: strip_def lstrip_def rstrip_def isspace_def)

text \<open>
  C10. For a non-empty string of whitespace only, \<open>clean_date\<close> returns the empty
  string, not \<open>None\<close>: the test for an empty value comes before the trimming.
\<close>

theorem clean_date_whitespace_only:
  "s \<noteq> [] \<and> (\<forall>c \<in> set s. isspace c) \<longrightarrow> clean_date (Some s) = Inr (Some [])"
proof
  assume a: "s \<noteq> [] \<and> (\<forall>c \<in> set s. isspace c)"
  then have "strip s = []" by (simp add: strip_all_space)
  moreover have "try_formats [] formats = Inr []"
    by (rule try_formats_none) (simp add: strptime_empty)
  ultimately show "clean_date (Some s) = Inr (Some [])"
    using a by (simp add: clean_date_Some)
qed

theorem clean_date_whitespace_only_witness:
  "isspace CHR '' '' \<and> clean_date (Some '' '') = Inr (Some [])"
  using clean_date_whitespace_only [of "'' ''"] by (simp add: isspace_def)

lemma strip_core:
  assumes l: "list_all isspace l" and r: "list_all isspace r"
    and t: "t = [] \<or> (\<not> isspace (hd t) \<and> \<not> isspace (last t))"
  shows "strip (l @ t @ r) = t"
proof (cases "t = []")
  case True
  with l r have "\<forall>c \<in> set (l @ t @ r). isspace c" by (auto simp: list_all_iff)
  then have "strip (l @ t @ r) = []" by (rule strip_all_space)
  with True show ?thesis by simp
next
  case False
  with t have h: "\<not> isspace (hd t)" and e: "\<not> isspace (last t)" by simp_all
  have "dropWhile isspace (rev r @ rev t @ rev l) = dropWhile isspace (rev t @ rev l)"
    using r by (intro dropWhile_append2) (simp add: list_all_iff)
  also have "\<dots> = rev t @ rev l"
    using False e by (cases "rev t") (auto simp: last_rev [symmetric] hd_rev)
  finally have "rstrip (l @ t @ r) = l @ t" by (simp add: rstrip_def)
  moreover have "dropWhile isspace (l @ t) = dropWhile isspace t"
    using l by (intro dropWhile_append2) (simp add: list_all_iff)
  moreover have "dropWhile isspace t = t" using False h by (cases t) auto
  ultimately show ?thesis by (simp add: strip_def lstrip_def)
qed

lemma clean_date_padded_not_a_date:
  "clean_date (Some ''  not-a-date '') = Inr (Some ''not-a-date'')"
  by code_simp

lemma strptime_feb_30:
  "isl (strptime ''30/02/2023'' ''%Y-%m-%d'')" "isl (strptime ''30/02/2023'' ''%d/%m/%Y'')"
  "isl (strptime ''30/02/2023'' ''%m/%d/%Y'')" "isl (strptime ''30/02/2023'' ''%d-%m-%Y'')"
  "isl (strptime ''30/02/2023'' ''%m-%d-%Y'')" "isl (strptime ''30/02/2023'' ''%Y/%m/%d'')"
  "strptime ''30/02/2023'' ''%d/%m/%Y'' = Inl (ValueError ''day is out of range for month'')"
  by code_simp+

text \<open>
  C6. \<open>clean_date\<close> returns \<open>None\<close> for an absent and for an empty input. For a
  non-empty input that none of the six formats parses it returns the trimmed input,
  without raising: when the input is whitespace \<open>l\<close>, then a text \<open>t\<close> that neither
  begins nor ends with whitespace, then whitespace \<open>r\<close>, and no format parses \<open>t\<close>, the
  result is \<open>t\<close>. So \<open>"not-a-date"\<close> comes back unchanged, also when it is surrounded by
  spaces.
\<close>

theorem clean_date_fallback:
  "clean_date None = Inr None
   \<and> clean_date (Some []) = Inr None
   \<and> (s \<noteq> [] \<and> (\<forall>f \<in> set formats. isl (strptime (strip s) f))
        \<longrightarrow> clean_date (Some s) = Inr (Some (strip s)))
   \<and> (l @ t @ r \<noteq> [] \<and> list_all isspace l \<and> list_all isspace r
        \<and> (t = [] \<or> (\<not> isspace (hd t) \<and> \<not> isspace (last t)))
        \<and> (\<forall>f \<in> set formats. isl (strptime t f))
        \<longrightarrow> clean_date (Some (l @ t @ r)) = Inr (Some t))
   \<and> clean_date (Some ''not-a-date'') = Inr (Some ''not-a-date'')
   \<and> clean_date (Some ''  not-a-date '') = Inr (Some ''not-a-date'')"
proof -
  have "clean_date None = Inr None" "clean_date (Some []) = Inr None"
    by (simp_all add: clean_date_def isna_def falsy_def)
  moreover have "s \<noteq> [] \<and> (\<forall>f \<in> set formats. isl (strptime (strip s) f))
        \<longrightarrow> clean_date (Some s) = Inr (Some (strip s))"
    by (simp add: clean_date_Some try_formats_none)
  moreover have "l @ t @ r \<noteq> [] \<and> list_all isspace l \<and> list_all isspace r
        \<and> (t = [] \<or> (\<not> isspace (hd t) \<and> \<not> isspace (last t)))
        \<and> (\<forall>f \<in> set formats. isl (strptime t f))
        \<longrightarrow> clean_date (Some (l @ t @ r)) = Inr (Some t)"
  proof
    assume a: "l @ t @ r \<noteq> [] \<and> list_all isspace l \<and> list_all isspace r
        \<and> (t = [] \<or> (\<not> isspace (hd t) \<and> \<not> isspace (last t)))
        \<and> (\<forall>f \<in> set formats. isl (strptime t f))"
    then have "strip (l @ t @ r) = t" by (intro strip_core) simp_all
    moreover from a have "try_formats t formats = Inr t" by (intro try_formats_none) simp
    ultimately show "clean_date (Some (l @ t @ r)) = Inr (Some t)"
      using a clean_date_Some [of "l @ t @ r"] by simp
  qed
  moreover have "clean_date (Some ''not-a-date'') = Inr (Some ''not-a-date'')"
    using try_formats_none [of formats "''not-a-date''"]
    by (simp add: clean_date_Some strip_not_a_date strptime_not_a_date)
  moreover note clean_date_padded_not_a_date
  ultimately show ?thesis by blast
qed

theorem clean_date_fallback_witness:
  "list_all isspace ''  '' \<and> list_all isspace '' ''
   \<and> \<not> isspace (hd ''30/02/2023'') \<and> \<not> isspace (last ''30/02/2023'')
   \<and> isl (strptime ''30/02/2023'' ''%Y-%m-%d'')
   \<and> isl (strptime ''30/02/2023'' ''%d/%m/%Y'')
   \<and> isl (strptime ''30/02/2023'' ''%m/%d/%Y'')
   \<and> isl (strptime ''30/02/2023'' ''%d-%m-%Y'')
   \<and> isl (strptime ''30/02/2023'' ''%m-%d-%Y'')
   \<and> isl (strptime ''30/02/2023'' ''%Y/%m/%d'')
   \<and> strptime ''30/02/2023'' ''%d/%m/%Y'' = Inl (ValueError ''day is out of range for month'')
   \<and> clean_date (Some ''  30/02/2023 '') = Inr (Some ''30/02/2023'')"
proof -
  have sp: "list_all isspace ''  ''" "list_all isspace '' ''"
    "\<not> isspace (hd ''30/02/2023'')" "\<not> isspace (last ''30/02/2023'')"
    by (simp_all add: isspace_def)
  have "clean_date (Some (''  '' @ ''30/02/2023'' @ '' '')) = Inr (Some ''30/02/2023'')"
    using clean_date_fallback [of _ "''  ''" "''30/02/2023''" "'' ''"] sp
    by (simp add: formats_def strptime_feb_30)
  then show ?thesis
    using sp by (simp add: strptime_feb_30)
qed

subsection \<open>The endpoint\<close>

lemma apply_raising_total:
  "(\<And>x. \<exists>y. f x = Inr y) \<Longrightarrow> \<exists>ys. apply_raising f xs = Inr ys"
proof (induction xs)
  case Nil
  show ?case by simp
next
  case (Cons x xs)
  from Cons.prems obtain y where "f x = Inr y" by blast
  moreover from Cons obtain ys where "apply_raising f xs = Inr ys" by blast
  ultimately show ?case by simp
qed

lemma clean_frame_result:
  "clean_frame df =
     (if map_of df ''Name'' = None then Inl (KeyError ''Name'')
      else if map_of df ''Date'' = None then Inl (KeyError ''Date'')
      else if map_of df ''Amount'' = None then Inl (KeyError ''Amount'')
      else if map_of df ''Category'' = None then Inl (KeyError ''Category'')
      else clean_frame df)
   \<and> (map_of df ''Name'' \<noteq> None \<and> map_of df ''Date'' \<noteq> None \<and> map_of df ''Amount'' \<noteq> None
        \<and> map_of df ''Category'' \<noteq> None \<longrightarrow> \<not> isl (clean_frame df))"
proof -
  have d: "\<exists>ys. apply_raising clean_date xs = Inr ys" for xs
    by (rule apply_raising_total) (rule clean_date_total)
  have a: "\<exists>ys. apply_raising clean_amount xs = Inr ys" for xs
    by (rule apply_raising_total) (rule clean_amount_total)
  show ?thesis
  proof (cases "map_of df ''Name''")
    case None
    then show ?thesis by (simp add: clean_frame_def getitem_def)
  next
    case (Some name_col)
    note n = this
    show ?thesis
    proof (cases "map_of df ''Date''")
      case None
      with n show ?thesis by (simp add: clean_frame_def getitem_def)
    next
      case (Some date_col)
      note dt = this
      obtain dates where dates: "apply_raising clean_date date_col = Inr dates"
        using d by blast
      show ?thesis
      proof (cases "map_of df ''Amount''")
        case None
        with n dt dates show ?thesis by (simp add: clean_frame_def getitem_def)
      next
        case (Some amount_col)
        note am = this
        obtain amounts where amounts: "apply_raising clean_amount amount_col = Inr amounts"
          using a by blast
        show ?thesis
        proof (cases "map_of df ''Category''")
          case None
          with n dt dates am amounts show ?thesis by (simp add: clean_frame_def getitem_def)
        next
          case (Some category_col)
          with n dt dates am amounts show ?thesis by (simp add: clean_frame_def getitem_def)
        qed
      qed
    qed
  qed
qed

lemma process_calls:
  "snd (process lib file) \<in> {[FileRead, Utf8Decode], [FileRead, Utf8Decode, ReadCsv]}"
  by (simp add: process_def Let_def split: sum.splits)

text \<open>
  C7. The endpoint answers with status 400 exactly when the file name does not end in
  \<open>.csv\<close>; the upload is then neither read nor decoded nor parsed, whatever its
  content and whatever the library would do.
\<close>

theorem analyze_rejects_non_csv:
  "(status_code (fst (analyze_expenses lib file)) = 400) = (\<not> endswith (filename file) ''.csv'')
   \<and> (\<not> endswith (filename file) ''.csv'' \<longrightarrow>
        analyze_expenses lib file = (HTTPException 400 ''File must be a CSV'', []))
   \<and> (endswith (filename file) ''.csv'' \<longrightarrow>
        FileRead \<in> set (snd (analyze_expenses lib file)))"
proof -
  have "status_code (fst (analyze_expenses lib file)) \<noteq> 400"
    if "endswith (filename file) ''.csv''"
    using that by (simp add: analyze_expenses_def split: prod.splits sum.splits)
  moreover have "FileRead \<in> set (snd (analyze_expenses lib file))"
    if "endswith (filename file) ''.csv''"
    using that process_calls [of lib "file"]
    by (auto simp: analyze_expenses_def split: prod.splits sum.splits)
  ultimately show ?thesis
    by (auto simp: analyze_expenses_def)
qed

theorem analyze_rejects_non_csv_witness:
  "\<forall>lib bytes. analyze_expenses lib \<lparr>filename = ''data.txt'', content = bytes\<rparr>
     = (HTTPException 400 ''File must be a CSV'', [])"
proof (intro allI)
  fix lib bytes
  show "analyze_expenses lib \<lparr>filename = ''data.txt'', content = bytes\<rparr>
     = (HTTPException 400 ''File must be a CSV'', [])"
    using analyze_rejects_non_csv [of lib "\<lparr>filename = ''data.txt'', content = bytes\<rparr>"]
    by (simp add: endswith_def)
qed

lemma clean_frame_missing:
  assumes "map_of df ''Name'' = None \<or> map_of df ''Date'' = None
    \<or> map_of df ''Amount'' = None \<or> map_of df ''Category'' = None"
  shows "\<exists>k. k \<in> {''Name'', ''Date'', ''Amount'', ''Category''} \<and> map_of df k = None
    \<and> clean_frame df = Inl (KeyError k)
    \<and> (k = ''Category'' \<longrightarrow> map_of df ''Name'' \<noteq> None \<and> map_of df ''Date'' \<noteq> None
          \<and> map_of df ''Amount'' \<noteq> None)
    \<and> (map_of df ''Name'' \<noteq> None \<and> map_of df ''Date'' \<noteq> None
          \<and> map_of df ''Amount'' \<noteq> None \<longrightarrow> k = ''Category'')"
proof -
  have eq: "clean_frame df =
     (if map_of df ''Name'' = None then Inl (KeyError ''Name'')
      else if map_of df ''Date'' = None then Inl (KeyError ''Date'')
      else if map_of df ''Amount'' = None then Inl (KeyError ''Amount'')
      else if map_of df ''Category'' = None then Inl (KeyError ''Category'')
      else clean_frame df)"
    using clean_frame_result [of df] by (rule conjunct1)
  show ?thesis
  proof (cases "map_of df ''Name'' = None")
    case True
    have "clean_frame df = Inl (KeyError ''Name'')" by (subst eq) (simp add: True)
    with True show ?thesis by (intro exI [of _ "''Name''"]) simp
  next
    case n: False
    show ?thesis
    proof (cases "map_of df ''Date'' = None")
      case True
      have "clean_frame df = Inl (KeyError ''Date'')" by (subst eq) (simp add: True n)
      with True show ?thesis by (intro exI [of _ "''Date''"]) simp
    next
      case d: False
      show ?thesis
      proof (cases "map_of df ''Amount'' = None")
        case True
        have "clean_frame df = Inl (KeyError ''Amount'')" by (subst eq) (simp add: True n d)
        with True show ?thesis by (intro exI [of _ "''Amount''"]) simp
      next
        case am: False
        with assms n d have c: "map_of df ''Category'' = None" by blast
        have "clean_frame df = Inl (KeyError ''Category'')" by (subst eq) (simp add: c n d am)
        with c n d am show ?thesis by (intro exI [of _ "''Category''"]) simp
      qed
    qed
  qed
qed

text \<open>
  C8. For an upload named \<open>.csv\<close> that cannot be processed (its bytes do not decode,
  \<open>read_csv\<close> raises, or a required column such as \<open>Category\<close> is missing) the endpoint
  answers with status 500 and no result body. The detail is \<open>Error processing file: \<close>
  followed by the text of the exception: the message of the exception that the codec
  or pandas raised, or the name of the missing column between apostrophes.
\<close>

theorem analyze_processing_failure:
  "endswith (filename file) ''.csv'' \<longrightarrow>
     (decode_utf8 lib (content file) = Inl e \<longrightarrow>
        fst (analyze_expenses lib file)
          = HTTPException 500 (''Error processing file: '' @ exn_str e))
   \<and> (decode_utf8 lib (content file) = Inl (LibraryError m) \<longrightarrow>
        fst (analyze_expenses lib file) = HTTPException 500 (''Error processing file: '' @ m))
   \<and> (decode_utf8 lib (content file) = Inr text \<and> read_csv lib text CHR '';'' = Inl e \<longrightarrow>
        fst (analyze_expenses lib file)
          = HTTPException 500 (''Error processing file: '' @ exn_str e))
   \<and> (decode_utf8 lib (content file) = Inr text
        \<and> read_csv lib text CHR '';'' = Inl (LibraryError m) \<longrightarrow>
        fst (analyze_expenses lib file) = HTTPException 500 (''Error processing file: '' @ m))
   \<and> (decode_utf8 lib (content file) = Inr text \<and> read_csv lib text CHR '';'' = Inr df
        \<and> c \<in> {''Name'', ''Date'', ''Amount'', ''Category''} \<and> map_of df c = None \<longrightarrow>
        (\<exists>k. k \<in> {''Name'', ''Date'', ''Amount'', ''Category''} \<and> map_of df k = None
           \<and> fst (analyze_expenses lib file)
             = HTTPException 500 (''Error processing file: '' @ [CHR 0x27] @ k @ [CHR 0x27])))
   \<and> (decode_utf8 lib (content file) = Inr text \<and> read_csv lib text CHR '';'' = Inr df
        \<and> map_of df ''Name'' \<noteq> None \<and> map_of df ''Date'' \<noteq> None
        \<and> map_of df ''Amount'' \<noteq> None \<and> map_of df ''Category'' = None \<longrightarrow>
        fst (analyze_expenses lib file)
          = HTTPException 500
              (''Error processing file: '' @ [CHR 0x27] @ ''Category'' @ [CHR 0x27]))"
proof (intro impI conjI)
  assume csv: "endswith (filename file) ''.csv''"
  {
    assume "decode_utf8 lib (content file) = Inl e"
    then show "fst (analyze_expenses lib file)
        = HTTPException 500 (''Error processing file: '' @ exn_str e)"
      using csv by (simp add: analyze_expenses_def process_def)
  next
    assume "decode_utf8 lib (content file) = Inl (LibraryError m)"
    then show "fst (analyze_expenses lib file)
        = HTTPException 500 (''Error processing file: '' @ m)"
      using csv by (simp add: analyze_expenses_def process_def)
  next
    assume "decode_utf8 lib (content file) = Inr text \<and> read_csv lib text CHR '';'' = Inl e"
    then show "fst (analyze_expenses lib file)
        = HTTPException 500 (''Error processing file: '' @ exn_str e)"
      using csv by (simp add: analyze_expenses_def process_def)
  next
    assume "decode_utf8 lib (content file) = Inr text
        \<and> read_csv lib text CHR '';'' = Inl (LibraryError m)"
    then show "fst (analyze_expenses lib file)
        = HTTPException 500 (''Error processing file: '' @ m)"
      using csv by (simp add: analyze_expenses_def process_def)
  next
    assume a: "decode_utf8 lib (content file) = Inr text \<and> read_csv lib text CHR '';'' = Inr df
        \<and> c \<in> {''Name'', ''Date'', ''Amount'', ''Category''} \<and> map_of df c = None"
    then have "map_of df ''Name'' = None \<or> map_of df ''Date'' = None
        \<or> map_of df ''Amount'' = None \<or> map_of df ''Category'' = None"
      by auto
    then obtain k where k: "k \<in> {''Name'', ''Date'', ''Amount'', ''Category''}"
        "map_of df k = None" "clean_frame df = Inl (KeyError k)"
      using clean_frame_missing [of df] by blast
    from a csv k(3) have "fst (analyze_expenses lib file)
          = HTTPException 500 (''Error processing file: '' @ [CHR 0x27] @ k @ [CHR 0x27])"
      by (simp add: analyze_expenses_def process_def)
    with k show "\<exists>k. k \<in> {''Name'', ''Date'', ''Amount'', ''Category''} \<and> map_of df k = None
           \<and> fst (analyze_expenses lib file)
             = HTTPException 500 (''Error processing file: '' @ [CHR 0x27] @ k @ [CHR 0x27])"
      by blast
  next
    assume a: "decode_utf8 lib (content file) = Inr text \<and> read_csv lib text CHR '';'' = Inr df
        \<and> map_of df ''Name'' \<noteq> None \<and> map_of df ''Date'' \<noteq> None
        \<and> map_of df ''Amount'' \<noteq> None \<and> map_of df ''Category'' = None"
    then have "clean_frame df = Inl (KeyError ''Category'')"
      using clean_frame_missing [of df] by auto
    with a csv show "fst (analyze_expenses lib file)
          = HTTPException 500
              (''Error processing file: '' @ [CHR 0x27] @ ''Category'' @ [CHR 0x27])"
      by (simp add: analyze_expenses_def process_def)
  }
qed

theorem analyze_processing_failure_witness:
  "endswith ''expenses.csv'' ''.csv''
   \<and> fst (analyze_expenses
        \<lparr>decode_utf8 = (\<lambda>b. Inr b),
         read_csv = (\<lambda>t sep. Inr [(''Name'', [Some ''a'']), (''Date'', [Some ''b'']),
                                    (''Amount'', [Some ''1''])]),
         series_sum = (\<lambda>xs. Finite 0), format_2f = (\<lambda>x. ''0.00'')\<rparr>
        \<lparr>filename = ''expenses.csv'', content = ''Name;Date;Amount''\<rparr>)
     = HTTPException 500 (''Error processing file: '' @ [CHR 0x27] @ ''Category'' @ [CHR 0x27])"
  using analyze_processing_failure
    [of "\<lparr>filename = ''expenses.csv'', content = ''Name;Date;Amount''\<rparr>"
        "\<lparr>decode_utf8 = (\<lambda>b. Inr b),
         read_csv = (\<lambda>t sep. Inr [(''Name'', [Some ''a'']), (''Date'', [Some ''b'']),
                                    (''Amount'', [Some ''1''])]),
         series_sum = (\<lambda>xs. Finite 0), format_2f = (\<lambda>x. ''0.00'')\<rparr>"
        _ _ "''Name;Date;Amount''"
        "[(''Name'', [Some ''a'']), (''Date'', [Some ''b'']), (''Amount'', [Some ''1''])]"]
  by (simp add: endswith_def)

subsection \<open>The answer\<close>









end
